theory Spec2Isabelle
  imports Complex_Main "HOL-Library.Multiset"
begin

section \<open>Values loaded from the two JSON files\<close>

text \<open>
  \<^verbatim>\<open>json.load\<close> yields \<^verbatim>\<open>None\<close>, booleans, unbounded integers, floats
  (IEEE binary64, including the constants \<^verbatim>\<open>NaN\<close>, \<^verbatim>\<open>Infinity\<close> and
  \<^verbatim>\<open>-Infinity\<close>), strings, lists and string-keyed dictionaries.
  A finite float is represented by the number it denotes, \<open>Fin 0\<close> being the
  positive zero \<^verbatim>\<open>0.0\<close>; \<open>NegZero\<close> is the negative zero \<^verbatim>\<open>-0.0\<close>, which the
  decoder reads from \<^verbatim>\<open>-0.0\<close> and which prints with its sign.
  A dictionary is the list of its items; of two items with one key a lookup
  finds the first (the decoder leaves one item for a key). The characters of a
  string stand for its code points; only the equality of strings matters below,
  and which characters the standard output encodes.
\<close>

datatype pyfloat = Fin real | NegZero | PosInf | NegInf | NaN

datatype pyval =
    PNone
  | PBool bool
  | PInt int
  | PFloat pyfloat
  | PStr string
  | PList "pyval list"
  | PDict "(string \<times> pyval) list"

text \<open>The exceptions the program can meet; the two file errors carry their message.\<close>

datatype error =
    KeyError
  | TypeError
  | AttributeError
  | OverflowError
  | MemoryError
  | UnicodeEncodeError
  | FileNotFoundError string
  | PermissionError string
  | JSONDecodeError string
  | OtherError string

section \<open>Float arithmetic: round to nearest, ties to even, 53 bits\<close>

function bitlen :: "int \<Rightarrow> int" where
  "bitlen n = (if n \<le> 0 then 0 else 1 + bitlen (n div 2))"
  by pat_completeness auto
termination
  by (relation "measure nat") auto

declare bitlen.simps [simp del]

definition round_half_even :: "real \<Rightarrow> int" where
  "round_half_even y =
     (let f = \<lfloor>y\<rfloor>; d = y - of_int f
      in if d < 1 / 2 then f else if 1 / 2 < d then f + 1
         else if even f then f else f + 1)"

text \<open>\<open>ilog2 x\<close> is the exponent \<open>e\<close> with \<open>2^e \<le> |x| < 2^(e+1)\<close>, for \<open>x \<noteq> 0\<close>.\<close>

definition ilog2 :: "real \<Rightarrow> int" where
  "ilog2 x =
     (if 1 \<le> \<bar>x\<bar> then bitlen \<lfloor>\<bar>x\<bar>\<rfloor> - 1
      else (let b = bitlen \<lfloor>1 / \<bar>x\<bar>\<rfloor>
            in if power_int 2 (1 - b) \<le> \<bar>x\<bar> then 1 - b else - b))"

text \<open>
  The double nearest to an exact result: the unit in the last place is
  \<open>2^(e - 52)\<close>, not below \<open>2^(-1074)\<close> (subnormals), a rounded result of
  magnitude \<open>2^1024\<close> or more is an infinity, and a negative result that rounds
  to zero is the negative zero. An exact zero is given the positive sign here;
  the operations below decide the sign of their exact zeros themselves.
\<close>

definition round_double :: "real \<Rightarrow> pyfloat" where
  "round_double x =
     (if x = 0 then Fin 0
      else (let k = max (ilog2 x - 52) (- 1074);
                r = of_int (round_half_even (x / power_int 2 k)) * power_int 2 k
            in if 2 ^ 1024 \<le> r then PosInf
               else if r \<le> - (2 ^ 1024) then NegInf
               else if r = 0 \<and> x < 0 then NegZero else Fin r))"

fun fadd :: "pyfloat \<Rightarrow> pyfloat \<Rightarrow> pyfloat" where
  "fadd NaN _ = NaN"
| "fadd _ NaN = NaN"
| "fadd PosInf NegInf = NaN"
| "fadd NegInf PosInf = NaN"
| "fadd PosInf _ = PosInf"
| "fadd _ PosInf = PosInf"
| "fadd NegInf _ = NegInf"
| "fadd _ NegInf = NegInf"
| "fadd NegZero NegZero = NegZero"
| "fadd NegZero (Fin b) = Fin b"
| "fadd (Fin a) NegZero = Fin a"
| "fadd (Fin a) (Fin b) = round_double (a + b)"

fun fneg :: "pyfloat \<Rightarrow> pyfloat" where
  "fneg (Fin a) = (if a = 0 then NegZero else Fin (- a))"
| "fneg NegZero = Fin 0"
| "fneg PosInf = NegInf"
| "fneg NegInf = PosInf"
| "fneg NaN = NaN"

text \<open>An infinity (positive or not) times a finite number.\<close>

definition inf_times :: "bool \<Rightarrow> real \<Rightarrow> pyfloat" where
  "inf_times positive a =
     (if a = 0 then NaN else if (0 < a) = positive then PosInf else NegInf)"

fun fmul :: "pyfloat \<Rightarrow> pyfloat \<Rightarrow> pyfloat" where
  "fmul NaN _ = NaN"
| "fmul _ NaN = NaN"
| "fmul (Fin a) (Fin b) =
     (if a * b = 0 then (if a < 0 \<or> b < 0 then NegZero else Fin 0) else round_double (a * b))"
| "fmul NegZero (Fin b) = (if b < 0 then Fin 0 else NegZero)"
| "fmul (Fin a) NegZero = (if a < 0 then Fin 0 else NegZero)"
| "fmul NegZero NegZero = Fin 0"
| "fmul NegZero _ = NaN"
| "fmul _ NegZero = NaN"
| "fmul PosInf (Fin b) = inf_times True b"
| "fmul NegInf (Fin b) = inf_times False b"
| "fmul (Fin a) PosInf = inf_times True a"
| "fmul (Fin a) NegInf = inf_times False a"
| "fmul PosInf PosInf = PosInf"
| "fmul NegInf NegInf = PosInf"
| "fmul PosInf NegInf = NegInf"
| "fmul NegInf PosInf = NegInf"

text \<open>
  \<^verbatim>\<open>float(n)\<close> for an integer: OverflowError when the rounded value is not finite
  (the double nearest to an integer never is a negative zero).
\<close>

definition int_to_float :: "int \<Rightarrow> error + pyfloat" where
  "int_to_float n =
     (case round_double (of_int n) of Fin r \<Rightarrow> Inr (Fin r) | _ \<Rightarrow> Inl OverflowError)"

section \<open>The interpreter\<close>

text \<open>
  What belongs to the interpreter and its platform is a parameter here:
  \<open>float_repr\<close>, the shortest-round-trip text of a float, and \<open>float_2f\<close>, the
  format \<^verbatim>\<open>:.2f\<close>; \<open>stdout_encodes\<close>, the characters outside ASCII that the
  encoding of the standard output has; and \<open>can_allocate\<close>, whether a sequence of
  that many items fits in memory.
\<close>

record fmt =
  float_repr :: "pyfloat \<Rightarrow> string"
  float_2f :: "pyfloat \<Rightarrow> string"
  stdout_encodes :: "char \<Rightarrow> bool"
  can_allocate :: "nat \<Rightarrow> bool"

text \<open>
  \<^verbatim>\<open>print(line)\<close>: the standard output encodes strictly, so a line with a
  character its encoding lacks raises UnicodeEncodeError and nothing of the line
  is printed. Every encoding has ASCII.
\<close>

definition is_ascii :: "char \<Rightarrow> bool" where
  "is_ascii c = (of_char c < (128 :: nat))"

definition encodable :: "fmt \<Rightarrow> string \<Rightarrow> bool" where
  "encodable F line = list_all (\<lambda>c. is_ascii c \<or> stdout_encodes F c) line"

definition py_print :: "fmt \<Rightarrow> string \<Rightarrow> string list \<Rightarrow> error + string list" where
  "py_print F line out = (if encodable F line then Inr (out @ [line]) else Inl UnicodeEncodeError)"

section \<open>Python's operators on loaded values\<close>

datatype pynum = NInt int | NFloat pyfloat

text \<open>Numbers: integers, floats, and booleans (a subclass of int).\<close>

fun as_number :: "pyval \<Rightarrow> pynum option" where
  "as_number (PInt n) = Some (NInt n)"
| "as_number (PBool b) = Some (NInt (if b then 1 else 0))"
| "as_number (PFloat f) = Some (NFloat f)"
| "as_number _ = None"

fun num_val :: "pynum \<Rightarrow> pyval" where
  "num_val (NInt n) = PInt n"
| "num_val (NFloat f) = PFloat f"

fun num_mul :: "pynum \<Rightarrow> pynum \<Rightarrow> error + pynum" where
  "num_mul (NInt p) (NInt q) = Inr (NInt (p * q))"
| "num_mul (NInt p) (NFloat g) =
     (case int_to_float p of Inl e \<Rightarrow> Inl e | Inr f \<Rightarrow> Inr (NFloat (fmul f g)))"
| "num_mul (NFloat f) (NInt q) =
     (case int_to_float q of Inl e \<Rightarrow> Inl e | Inr g \<Rightarrow> Inr (NFloat (fmul f g)))"
| "num_mul (NFloat f) (NFloat g) = Inr (NFloat (fmul f g))"

text \<open>
  Sequence repetition \<^verbatim>\<open>seq * n\<close>: a count that does not fit the index type
  raises OverflowError, a count below one gives the empty sequence. A result
  longer than the index type allows is an OverflowError for a string and a
  MemoryError for a list, and so is a result that memory cannot take.
\<close>

definition repeat_count :: "int \<Rightarrow> error + nat" where
  "repeat_count n = (if 2 ^ 63 \<le> n \<or> n < - (2 ^ 63) then Inl OverflowError else Inr (nat n))"

definition ssize_max :: nat where
  "ssize_max = 2 ^ 63 - 1"

fun seq_repeat :: "fmt \<Rightarrow> pyval \<Rightarrow> int \<Rightarrow> error + pyval" where
  "seq_repeat F (PStr s) n =
     (case repeat_count n of Inl e \<Rightarrow> Inl e | Inr k \<Rightarrow>
        if k = 0 \<or> s = [] then Inr (PStr [])
        else if k = 1 then Inr (PStr s)
        else if ssize_max div k < length s then Inl OverflowError
        else if can_allocate F (k * length s) then Inr (PStr (concat (replicate k s)))
        else Inl MemoryError)"
| "seq_repeat F (PList xs) n =
     (case repeat_count n of Inl e \<Rightarrow> Inl e | Inr k \<Rightarrow>
        if k = 0 \<or> xs = [] then Inr (PList [])
        else if ssize_max div k < length xs then Inl MemoryError
        else if can_allocate F (k * length xs) then Inr (PList (concat (replicate k xs)))
        else Inl MemoryError)"
| "seq_repeat F _ n = Inl TypeError"

text \<open>\<^verbatim>\<open>a * b\<close>\<close>

definition py_mul :: "fmt \<Rightarrow> pyval \<Rightarrow> pyval \<Rightarrow> error + pyval" where
  "py_mul F a b =
     (case (as_number a, as_number b) of
        (Some x, Some y) \<Rightarrow>
          (case num_mul x y of Inl e \<Rightarrow> Inl e | Inr v \<Rightarrow> Inr (num_val v))
      | (None, Some (NInt n)) \<Rightarrow> seq_repeat F a n
      | (Some (NInt n), None) \<Rightarrow> seq_repeat F b n
      | _ \<Rightarrow> Inl TypeError)"

text \<open>\<^verbatim>\<open>total_cost += v\<close>, where \<^verbatim>\<open>total_cost\<close> is a float.\<close>

definition add_to_total :: "pyfloat \<Rightarrow> pyval \<Rightarrow> error + pyfloat" where
  "add_to_total total_cost v =
     (case as_number v of
        Some (NInt n) \<Rightarrow>
          (case int_to_float n of Inl e \<Rightarrow> Inl e | Inr f \<Rightarrow> Inr (fadd total_cost f))
      | Some (NFloat f) \<Rightarrow> Inr (fadd total_cost f)
      | None \<Rightarrow> Inl TypeError)"

text \<open>\<^verbatim>\<open>item[key]\<close> with a string key: only a dictionary can be subscripted so.\<close>

fun subscript :: "pyval \<Rightarrow> string \<Rightarrow> error + pyval" where
  "subscript (PDict kvs) k = (case map_of kvs k of None \<Rightarrow> Inl KeyError | Some v \<Rightarrow> Inr v)"
| "subscript _ k = Inl TypeError"

text \<open>\<^verbatim>\<open>sale.get(key)\<close>: only a dictionary has the method; a missing key gives None.\<close>

fun get_method :: "pyval \<Rightarrow> string \<Rightarrow> error + pyval" where
  "get_method (PDict kvs) k = Inr (case map_of kvs k of None \<Rightarrow> PNone | Some v \<Rightarrow> v)"
| "get_method _ k = Inl AttributeError"

text \<open>\<^verbatim>\<open>for item in v\<close>: a dictionary iterates its keys, a string its characters.\<close>

fun py_iter :: "pyval \<Rightarrow> error + pyval list" where
  "py_iter (PList xs) = Inr xs"
| "py_iter (PDict kvs) = Inr (map PStr (remdups (map fst kvs)))"
| "py_iter (PStr s) = Inr (map (\<lambda>c. PStr [c]) s)"
| "py_iter _ = Inl TypeError"

text \<open>
  Dictionary keys. Lists and dictionaries are unhashable. Numbers that compare
  equal are the same key (\<^verbatim>\<open>1 == 1.0 == True\<close>, \<^verbatim>\<open>0.0 == -0.0\<close>). The decoder returns one and
  the same object for every \<^verbatim>\<open>NaN\<close>, which a dictionary finds by identity.
\<close>

datatype pykey = KNone | KStr string | KNum real | KPosInf | KNegInf | KNaN

fun py_key :: "pyval \<Rightarrow> error + pykey" where
  "py_key PNone = Inr KNone"
| "py_key (PStr s) = Inr (KStr s)"
| "py_key (PBool b) = Inr (KNum (if b then 1 else 0))"
| "py_key (PInt n) = Inr (KNum (of_int n))"
| "py_key (PFloat (Fin r)) = Inr (KNum r)"
| "py_key (PFloat NegZero) = Inr (KNum 0)"
| "py_key (PFloat PosInf) = Inr KPosInf"
| "py_key (PFloat NegInf) = Inr KNegInf"
| "py_key (PFloat NaN) = Inr KNaN"
| "py_key (PList xs) = Inl TypeError"
| "py_key (PDict kvs) = Inl TypeError"

section \<open>Text of a value in an f-string\<close>

fun digits :: "nat \<Rightarrow> string" where
  "digits n = (if n < 10 then [char_of (48 + n)] else digits (n div 10) @ [char_of (48 + n mod 10)])"

declare digits.simps [simp del]

definition str_int :: "int \<Rightarrow> string" where
  "str_int n = (if n < 0 then CHR ''-'' # digits (nat (- n)) else digits (nat n))"

text \<open>\<^verbatim>\<open>str\<close> of a hashable value (only such a value reaches the warning).\<close>

fun py_str :: "fmt \<Rightarrow> pyval \<Rightarrow> string" where
  "py_str F PNone = ''None''"
| "py_str F (PBool b) = (if b then ''True'' else ''False'')"
| "py_str F (PInt n) = str_int n"
| "py_str F (PFloat f) = float_repr F f"
| "py_str F (PStr s) = s"
| "py_str F _ = ''''"

section \<open>compute_total_cost\<close>

text \<open>\<^verbatim>\<open>{item["title"]: item["price"] for item in price_catalogue}\<close>\<close>

fun build_prices :: "pyval list \<Rightarrow> (pykey \<rightharpoonup> pyval) \<Rightarrow> error + (pykey \<rightharpoonup> pyval)" where
  "build_prices [] m = Inr m"
| "build_prices (item # items) m =
     (case subscript item ''title'' of Inl e \<Rightarrow> Inl e | Inr t \<Rightarrow>
      case subscript item ''price'' of Inl e \<Rightarrow> Inl e | Inr p \<Rightarrow>
      case py_key t of Inl e \<Rightarrow> Inl e | Inr k \<Rightarrow>
      build_prices items (m(k \<mapsto> p)))"

definition warning :: "fmt \<Rightarrow> pyval \<Rightarrow> string" where
  "warning F product_name =
     '' Product '' @ py_str F product_name @ '' not found in the price catalogue.''"

text \<open>
  The loop over the sales, with the running total and the lines printed so far.
  The printed lines are returned also when an exception ends the loop.
\<close>

fun sales_loop ::
  "fmt \<Rightarrow> (pykey \<rightharpoonup> pyval) \<Rightarrow> pyval list \<Rightarrow> pyfloat \<Rightarrow> string list
     \<Rightarrow> string list \<times> (error + pyfloat)" where
  "sales_loop F product_prices [] total_cost out = (out, Inr total_cost)"
| "sales_loop F product_prices (sale # rest) total_cost out =
     (case get_method sale ''Product'' of Inl e \<Rightarrow> (out, Inl e) | Inr product_name \<Rightarrow>
      case get_method sale ''Quantity'' of Inl e \<Rightarrow> (out, Inl e) | Inr quantity \<Rightarrow>
      case py_key product_name of Inl e \<Rightarrow> (out, Inl e) | Inr k \<Rightarrow>
      case product_prices k of
        Some product_price \<Rightarrow>
          (case py_mul F product_price quantity of Inl e \<Rightarrow> (out, Inl e) | Inr v \<Rightarrow>
           case add_to_total total_cost v of Inl e \<Rightarrow> (out, Inl e) | Inr total' \<Rightarrow>
           sales_loop F product_prices rest total' out)
      | None \<Rightarrow>
          (case py_print F (warning F product_name) out of Inl e \<Rightarrow> (out, Inl e) | Inr out' \<Rightarrow>
           sales_loop F product_prices rest total_cost out'))"

definition compute_total_cost :: "fmt \<Rightarrow> pyval \<Rightarrow> pyval \<Rightarrow> string list \<times> (error + pyfloat)" where
  "compute_total_cost F price_catalogue sales_record =
     (case py_iter price_catalogue of Inl e \<Rightarrow> ([], Inl e) | Inr items \<Rightarrow>
      case build_prices items Map.empty of Inl e \<Rightarrow> ([], Inl e) | Inr product_prices \<Rightarrow>
      case py_iter sales_record of Inl e \<Rightarrow> ([], Inl e) | Inr sales \<Rightarrow>
      sales_loop F product_prices sales (Fin 0) [])"

section \<open>main\<close>

text \<open>
  What the program meets outside itself: the argument vector (\<^verbatim>\<open>sys.argv\<close>, the
  script name first), for each path the outcome of opening the file and
  \<^verbatim>\<open>json.load\<close> on it, the outcome of opening \<^verbatim>\<open>SalesResults.txt\<close> for
  writing, and the two readings of the clock.
\<close>

datatype load_result = Loaded pyval | Raises error

record env =
  load :: "string \<Rightarrow> load_result"
  open_results :: "error option"
  start_time :: pyfloat
  end_time :: pyfloat

text \<open>How the process ends: \<^verbatim>\<open>main\<close> returns, \<^verbatim>\<open>sys.exit(n)\<close>, or an exception nobody catches.\<close>

datatype status = Returned | SysExit int | Uncaught error

text \<open>
  \<open>console\<close>: the lines printed by the program, in order; \<open>report\<close>: the strings
  written to \<^verbatim>\<open>SalesResults.txt\<close>, or \<open>None\<close> when the file is not written.
\<close>

record run =
  console :: "string list"
  report :: "string list option"
  status :: status

definition usage :: string where
  "usage = ''Usage: python computeSales.py priceCatalogue.json sales.json''"

definition total_line :: "fmt \<Rightarrow> pyfloat \<Rightarrow> string" where
  "total_line F total_cost = ''Total Cost: $'' @ float_2f F total_cost"

definition time_line :: "fmt \<Rightarrow> pyfloat \<Rightarrow> pyfloat \<Rightarrow> string" where
  "time_line F t0 t1 =
     ''Execution Time: '' @ float_2f F (fadd t1 (fneg t0)) @ '' seconds'' @ [CHR 0x0A]"

text \<open>The body of the \<^verbatim>\<open>try\<close> block: what was printed, what was written, how it ended.\<close>

definition try_body ::
  "fmt \<Rightarrow> env \<Rightarrow> string \<Rightarrow> string \<Rightarrow> string list \<times> string list option \<times> (error + unit)" where
  "try_body F E price_catalogue_file sales_record_file =
     (case load E price_catalogue_file of Raises e \<Rightarrow> ([], None, Inl e) | Loaded price_catalogue \<Rightarrow>
      case load E sales_record_file of Raises e \<Rightarrow> ([], None, Inl e) | Loaded sales_record \<Rightarrow>
      case compute_total_cost F price_catalogue sales_record of
        (out, Inl e) \<Rightarrow> (out, None, Inl e)
      | (out, Inr total_cost) \<Rightarrow>
          (case open_results E of
             Some e \<Rightarrow> (out @ [total_line F total_cost], None, Inl e)
           | None \<Rightarrow>
               (out @ [total_line F total_cost],
                Some [total_line F total_cost @ [CHR 0x0A],
                      time_line F (start_time E) (end_time E)],
                Inr ())))"

text \<open>
  An \<^verbatim>\<open>except\<close> clause: it prints its line and \<^verbatim>\<open>main\<close> returns; an exception
  raised by the \<^verbatim>\<open>print\<close> itself is caught by nobody.
\<close>

definition handler :: "fmt \<Rightarrow> string \<Rightarrow> string list \<Rightarrow> string list option \<Rightarrow> run" where
  "handler F line out written =
     (case py_print F line out of
        Inr out' \<Rightarrow> \<lparr>console = out', report = written, status = Returned\<rparr>
      | Inl e \<Rightarrow> \<lparr>console = out, report = written, status = Uncaught e\<rparr>)"

text \<open>
  The usage line and the total line are ASCII (text of the program and the
  digits of a number), so their \<^verbatim>\<open>print\<close> raises nothing.
\<close>

definition main :: "fmt \<Rightarrow> string list \<Rightarrow> env \<Rightarrow> run" where
  "main F argv E =
     (if length argv \<noteq> 3
      then \<lparr>console = [usage], report = None, status = SysExit 1\<rparr>
      else
        (case try_body F E (argv ! 1) (argv ! 2) of
           (out, written, Inr u) \<Rightarrow> \<lparr>console = out, report = written, status = Returned\<rparr>
         | (out, written, Inl (FileNotFoundError msg)) \<Rightarrow>
             handler F (''Error: '' @ msg) out written
         | (out, written, Inl (JSONDecodeError msg)) \<Rightarrow>
             handler F (''Error: Invalid JSON format in one file '' @ msg) out written
         | (out, written, Inl e) \<Rightarrow> \<lparr>console = out, report = written, status = Uncaught e\<rparr>))"

section \<open>The data model of the specification\<close>

text \<open>
  A price entry is an object with a string \<open>title\<close> and a numeric \<open>price\<close>; a sale
  record is an object with a string \<open>Product\<close> and a numeric \<open>Quantity\<close>.
\<close>

fun field :: "pyval \<Rightarrow> string \<Rightarrow> pyval option" where
  "field (PDict kvs) k = map_of kvs k"
| "field _ k = None"

definition is_price_entry :: "pyval \<Rightarrow> bool" where
  "is_price_entry item =
     (case (field item ''title'', field item ''price'') of
        (Some (PStr t), Some p) \<Rightarrow> as_number p \<noteq> None
      | _ \<Rightarrow> False)"

definition is_sale_record :: "pyval \<Rightarrow> bool" where
  "is_sale_record sale =
     (case (field sale ''Product'', field sale ''Quantity'') of
        (Some (PStr n), Some q) \<Rightarrow> as_number q \<noteq> None
      | _ \<Rightarrow> False)"

definition text_of :: "pyval option \<Rightarrow> string" where
  "text_of v = (case v of Some (PStr s) \<Rightarrow> s | _ \<Rightarrow> [])"

definition number_of :: "pyval option \<Rightarrow> pynum" where
  "number_of v =
     (case v of
        Some p \<Rightarrow> (case as_number p of Some x \<Rightarrow> x | None \<Rightarrow> NInt 0)
      | None \<Rightarrow> NInt 0)"

text \<open>The catalogue as a mapping from title to price; of two entries with one title the later stands.\<close>

definition catalogue_price :: "pyval list \<Rightarrow> string \<rightharpoonup> pynum" where
  "catalogue_price c =
     map_of (rev (map (\<lambda>item. (text_of (field item ''title''), number_of (field item ''price''))) c))"

definition resolvable :: "pyval list \<Rightarrow> pyval \<Rightarrow> bool" where
  "resolvable c sale = (catalogue_price c (text_of (field sale ''Product'')) \<noteq> None)"

text \<open>An integer that \<^verbatim>\<open>float\<close> can convert (its nearest double is finite).\<close>

definition finite_double :: "int \<Rightarrow> bool" where
  "finite_double n = (case round_double (of_int n) of Fin r \<Rightarrow> True | _ \<Rightarrow> False)"

fun float_value :: "pynum \<Rightarrow> pyfloat" where
  "float_value (NInt n) = round_double (of_int n)"
| "float_value (NFloat f) = f"

text \<open>Price times quantity: exact on two integers, a float product otherwise.\<close>

fun times :: "pynum \<Rightarrow> pynum \<Rightarrow> pynum" where
  "times (NInt p) (NInt q) = NInt (p * q)"
| "times x y = NFloat (fmul (float_value x) (float_value y))"

text \<open>No integer of the product is too large to become a float.\<close>

fun fits :: "pynum \<Rightarrow> pynum \<Rightarrow> bool" where
  "fits (NInt p) (NInt q) = finite_double (p * q)"
| "fits (NInt p) (NFloat g) = finite_double p"
| "fits (NFloat f) (NInt q) = finite_double q"
| "fits (NFloat f) (NFloat g) = True"

definition sale_fits :: "pyval list \<Rightarrow> pyval \<Rightarrow> bool" where
  "sale_fits c sale =
     (case catalogue_price c (text_of (field sale ''Product'')) of
        None \<Rightarrow> True
      | Some price \<Rightarrow> fits price (number_of (field sale ''Quantity'')))"

definition sale_cost :: "pyval list \<Rightarrow> pyval \<Rightarrow> pyfloat" where
  "sale_cost c sale =
     float_value (times (the (catalogue_price c (text_of (field sale ''Product''))))
                        (number_of (field sale ''Quantity'')))"

text \<open>
  A sale record whose product the catalogue lacks has its product printed, which
  the standard output must be able to encode.
\<close>

definition printable :: "fmt \<Rightarrow> pyval list \<Rightarrow> pyval \<Rightarrow> bool" where
  "printable F c sale = (resolvable c sale \<or> encodable F (text_of (field sale ''Product'')))"

text \<open>
  The total of the specification: the sum, in float arithmetic and in record
  order from \<open>0.0\<close>, of price times quantity over the resolvable sale records.
\<close>

definition spec_total :: "pyval list \<Rightarrow> pyval list \<Rightarrow> pyfloat" where
  "spec_total c s = foldl fadd (Fin 0) (map (sale_cost c) (filter (resolvable c) s))"

text \<open>The dictionary the comprehension builds from well-formed entries.\<close>

definition price_map :: "pyval list \<Rightarrow> pykey \<rightharpoonup> pyval" where
  "price_map c =
     map_of (rev (map (\<lambda>item. (KStr (text_of (field item ''title'')), the (field item ''price''))) c))"

section \<open>Notions used in the statements\<close>

text \<open>One pass of the loop body, for reasoning about the loop record by record.\<close>

definition sale_step ::
  "fmt \<Rightarrow> (pykey \<rightharpoonup> pyval) \<Rightarrow> pyval \<Rightarrow> pyfloat \<Rightarrow> error + pyfloat \<times> string list" where
  "sale_step F pp sale t =
     (case get_method sale ''Product'' of Inl e \<Rightarrow> Inl e | Inr product_name \<Rightarrow>
      case get_method sale ''Quantity'' of Inl e \<Rightarrow> Inl e | Inr quantity \<Rightarrow>
      case py_key product_name of Inl e \<Rightarrow> Inl e | Inr k \<Rightarrow>
      case pp k of
        Some product_price \<Rightarrow>
          (case py_mul F product_price quantity of Inl e \<Rightarrow> Inl e | Inr v \<Rightarrow>
           case add_to_total t v of Inl e \<Rightarrow> Inl e | Inr t' \<Rightarrow> Inr (t', []))
      | None \<Rightarrow>
          (case py_print F (warning F product_name) [] of Inl e \<Rightarrow> Inl e | Inr lines \<Rightarrow>
           Inr (t, lines)))"

text \<open>A catalogue entry that is an object without a \<open>title\<close> or without a \<open>price\<close>.\<close>

definition lacks_key :: "pyval \<Rightarrow> bool" where
  "lacks_key item =
     (case item of
        PDict kvs \<Rightarrow> map_of kvs ''title'' = None \<or> map_of kvs ''price'' = None
      | _ \<Rightarrow> False)"

text \<open>
  A sale record priced in integers: both the catalogue price of its product and its
  quantity are integers. \<open>exact_cost\<close> is then the exact product.
\<close>

definition integral :: "pyval list \<Rightarrow> pyval \<Rightarrow> bool" where
  "integral c sale =
     (case (catalogue_price c (text_of (field sale ''Product'')),
            number_of (field sale ''Quantity'')) of
        (Some (NInt p), NInt q) \<Rightarrow> True
      | _ \<Rightarrow> False)"

definition exact_cost :: "pyval list \<Rightarrow> pyval \<Rightarrow> int" where
  "exact_cost c sale =
     (case (catalogue_price c (text_of (field sale ''Product'')),
            number_of (field sale ''Quantity'')) of
        (Some (NInt p), NInt q) \<Rightarrow> p * q
      | _ \<Rightarrow> 0)"

section \<open>Example inputs\<close>

text \<open>An interpreter whose standard output is UTF-8, and one whose standard output is ASCII.\<close>

definition fmt0 :: fmt where
  "fmt0 = \<lparr>float_repr = (\<lambda>f. ''0.0''), float_2f = (\<lambda>f. ''0.00''),
           stdout_encodes = (\<lambda>c. True), can_allocate = (\<lambda>n. n < 2 ^ 32)\<rparr>"

definition fmt_ascii :: fmt where
  "fmt_ascii = fmt0\<lparr>stdout_encodes := (\<lambda>c. False)\<rparr>"

text \<open>The end-to-end example of the specification.\<close>

definition cat1 :: "pyval list" where
  "cat1 = [PDict [(''title'', PStr ''A''), (''price'', PFloat (Fin 10))],
           PDict [(''title'', PStr ''B''), (''price'', PFloat (Fin (5 / 2)))]]"

definition sales1 :: "pyval list" where
  "sales1 = [PDict [(''Product'', PStr ''A''), (''Quantity'', PInt 3)],
             PDict [(''Product'', PStr ''C''), (''Quantity'', PInt 1)]]"

definition sale_A :: pyval where
  "sale_A = PDict [(''Product'', PStr ''A''), (''Quantity'', PInt 3)]"

definition sale_C :: pyval where
  "sale_C = PDict [(''Product'', PStr ''C''), (''Quantity'', PInt 1)]"

definition sale_lowercase :: pyval where
  "sale_lowercase = PDict [(''product'', PStr ''A''), (''Quantity'', PInt 3)]"

definition sale_B :: pyval where
  "sale_B = PDict [(''Product'', PStr ''B''), (''Quantity'', PInt 2)]"

definition sales2 :: "pyval list" where
  "sales2 = [sale_A, sale_C, sale_B]"

text \<open>A product name with a letter outside ASCII.\<close>

definition sale_accent :: pyval where
  "sale_accent = PDict [(''Product'', PStr [CHR ''C'', CHR ''a'', CHR ''f'', CHR 0xE9]), (''Quantity'', PInt 1)]"

text \<open>A price that is a string.\<close>

definition cat_text :: "pyval list" where
  "cat_text = [PDict [(''title'', PStr ''A''), (''price'', PStr ''abc'')]]"

text \<open>Integers that are floats each, with a product beyond the largest float.\<close>

definition cat_big :: "pyval list" where
  "cat_big = [PDict [(''title'', PStr ''A''), (''price'', PInt (2 ^ 600))]]"

definition sales_big :: "pyval list" where
  "sales_big = [PDict [(''Product'', PStr ''A''), (''Quantity'', PInt (2 ^ 600))]]"

definition cat_dup :: "pyval list" where
  "cat_dup = [PDict [(''title'', PStr ''A''), (''price'', PInt 10)],
              PDict [(''title'', PStr ''B''), (''price'', PInt 7)],
              PDict [(''title'', PStr ''A''), (''price'', PInt 12)]]"

definition cat_no_price :: "pyval list" where
  "cat_no_price = [PDict [(''title'', PStr ''A''), (''price'', PInt 10)],
                   PDict [(''title'', PStr ''B'')]]"

definition sales_no_quantity :: "pyval list" where
  "sales_no_quantity = [PDict [(''Product'', PStr ''A'')]]"

definition argv0 :: "string list" where
  "argv0 = [''computeSales.py'', ''prices.json'', ''sales.json'']"

text \<open>A file system holding the two files with the given contents, and nothing else.\<close>

definition files :: "pyval \<Rightarrow> pyval \<Rightarrow> string \<Rightarrow> load_result" where
  "files prices sales path =
     (if path = ''prices.json'' then Loaded prices
      else if path = ''sales.json'' then Loaded sales
      else Raises (FileNotFoundError
             (''[Errno 2] No such file or directory: '' @ [CHR 0x27] @ path @ [CHR 0x27])))"

definition env0 :: "pyval \<Rightarrow> pyval \<Rightarrow> pyfloat \<Rightarrow> pyfloat \<Rightarrow> env" where
  "env0 prices sales t0 t1 =
     \<lparr>load = files prices sales, open_results = None, start_time = t0, end_time = t1\<rparr>"

definition env_missing :: env where
  "env_missing =
     \<lparr>load = (\<lambda>path. Raises (FileNotFoundError
                (''[Errno 2] No such file or directory: '' @ [CHR 0x27] @ path @ [CHR 0x27]))),
      open_results = None, start_time = Fin 0, end_time = Fin 0\<rparr>"

text \<open>A file system whose first file exists and may not be read.\<close>

definition env_denied :: env where
  "env_denied =
     \<lparr>load = (\<lambda>path. Raises (PermissionError
                (''[Errno 13] Permission denied: '' @ [CHR 0x27] @ path @ [CHR 0x27]))),
      open_results = None, start_time = Fin 0, end_time = Fin 0\<rparr>"

text \<open>Integer prices, one of them \<open>2^53\<close>, and three sales in two orders.\<close>

definition cat_order :: "pyval list" where
  "cat_order = [PDict [(''title'', PStr ''A''), (''price'', PInt 9007199254740992)],
                PDict [(''title'', PStr ''B''), (''price'', PInt 1)]]"

definition sale_A1 :: pyval where
  "sale_A1 = PDict [(''Product'', PStr ''A''), (''Quantity'', PInt 1)]"

definition sale_B1 :: pyval where
  "sale_B1 = PDict [(''Product'', PStr ''B''), (''Quantity'', PInt 1)]"

text \<open>The prices \<^verbatim>\<open>0.1\<close>, \<^verbatim>\<open>0.2\<close> and \<^verbatim>\<open>0.3\<close>, as the doubles the decoder reads.\<close>

definition cat_tenths :: "pyval list" where
  "cat_tenths =
     [PDict [(''title'', PStr ''A''), (''price'', PFloat (Fin (3602879701896397 / 2 ^ 55)))],
      PDict [(''title'', PStr ''B''), (''price'', PFloat (Fin (3602879701896397 / 2 ^ 54)))],
      PDict [(''title'', PStr ''C''), (''price'', PFloat (Fin (5404319552844595 / 2 ^ 54)))]]"

definition sale_C1 :: pyval where
  "sale_C1 = PDict [(''Product'', PStr ''C''), (''Quantity'', PInt 1)]"

text \<open>A catalogue with integer prices.\<close>

definition cat_int :: "pyval list" where
  "cat_int = [PDict [(''title'', PStr ''A''), (''price'', PInt 10)],
              PDict [(''title'', PStr ''B''), (''price'', PInt 7)]]"

section \<open>Facts about the catalogue dictionary and the loop\<close>

lemmas rd_eval = round_double_def ilog2_def bitlen.simps round_half_even_def Let_def

lemma bitlen_pow2: "bitlen (2 ^ m) = int m + 1"
proof (induction m)
  case 0
  show ?case by (simp add: bitlen.simps)
next
  case (Suc m)
  have "bitlen (2 ^ Suc m) = 1 + bitlen (2 ^ Suc m div 2)"
    by (subst bitlen.simps) simp
  then show ?case using Suc by simp
qed

lemma int_to_float_finite: "finite_double n \<Longrightarrow> int_to_float n = Inr (round_double (of_int n))"
  by (auto simp: finite_double_def int_to_float_def split: pyfloat.splits)

lemma num_mul_fits: "fits x y \<Longrightarrow> num_mul x y = Inr (times x y)"
  by (cases x; cases y) (auto simp: int_to_float_finite)

lemma step_fits:
  assumes "as_number p = Some x" "as_number q = Some y" "fits x y"
  shows "\<exists>v. py_mul F p q = Inr v \<and> add_to_total t v = Inr (fadd t (float_value (times x y)))"
  using assms
  by (cases x; cases y) (auto simp: py_mul_def add_to_total_def int_to_float_finite)

lemma entry_fields:
  assumes "is_price_entry item"
  obtains kvs t p x where "item = PDict kvs" "map_of kvs ''title'' = Some (PStr t)"
    "map_of kvs ''price'' = Some p" "as_number p = Some x"
  using assms
  by (cases item) (auto simp: is_price_entry_def split: option.splits pyval.splits)

lemma sale_fields:
  assumes "is_sale_record sale"
  obtains kvs n q y where "sale = PDict kvs" "map_of kvs ''Product'' = Some (PStr n)"
    "map_of kvs ''Quantity'' = Some q" "as_number q = Some y"
  using assms
  by (cases sale) (auto simp: is_sale_record_def split: option.splits pyval.splits)

lemma price_map_Cons:
  assumes "item = PDict kvs" "map_of kvs ''title'' = Some (PStr t)" "map_of kvs ''price'' = Some p"
  shows "price_map (item # c) = [KStr t \<mapsto> p] ++ price_map c"
  using assms by (simp add: price_map_def text_of_def)

lemma build_prices_entries:
  "\<forall>item \<in> set c. is_price_entry item \<Longrightarrow> build_prices c m = Inr (m ++ price_map c)"
proof (induction c arbitrary: m)
  case Nil
  then show ?case by (simp add: price_map_def)
next
  case (Cons item c)
  from Cons.prems have e: "is_price_entry item" and r: "\<forall>i \<in> set c. is_price_entry i" by auto
  from e obtain kvs t p x where i: "item = PDict kvs" "map_of kvs ''title'' = Some (PStr t)"
    "map_of kvs ''price'' = Some p" by (rule entry_fields)
  have "build_prices (item # c) m = build_prices c (m(KStr t \<mapsto> p))"
    using i by simp
  also have "\<dots> = Inr (m(KStr t \<mapsto> p) ++ price_map c)" using Cons.IH [OF r] .
  also have "m(KStr t \<mapsto> p) ++ price_map c = m ++ price_map (item # c)"
    unfolding price_map_Cons [OF i] by (simp add: map_add_def fun_eq_iff split: option.splits)
  finally show ?case .
qed

lemma price_map_lookup:
  "\<forall>item \<in> set c. is_price_entry item \<Longrightarrow>
   (case price_map c (KStr n) of None \<Rightarrow> catalogue_price c n = None
    | Some p \<Rightarrow> \<exists>x. as_number p = Some x \<and> catalogue_price c n = Some x)"
proof (induction c)
  case Nil
  then show ?case by (simp add: price_map_def catalogue_price_def)
next
  case (Cons item c)
  from Cons.prems have e: "is_price_entry item" and r: "\<forall>i \<in> set c. is_price_entry i" by auto
  from e obtain kvs t p x where i: "item = PDict kvs" "map_of kvs ''title'' = Some (PStr t)"
    "map_of kvs ''price'' = Some p" and x: "as_number p = Some x" by (rule entry_fields)
  have 2: "catalogue_price (item # c) = [t \<mapsto> x] ++ catalogue_price c"
    using i x by (simp add: catalogue_price_def text_of_def number_of_def)
  show ?case using Cons.IH [OF r] x
    unfolding price_map_Cons [OF i] 2 by (auto simp: map_add_def split: option.splits)
qed

lemma price_map_None: "\<forall>item \<in> set c. is_price_entry item \<Longrightarrow> price_map c KNone = None"
proof (induction c)
  case Nil
  then show ?case by (simp add: price_map_def)
next
  case (Cons item c)
  from Cons.prems have e: "is_price_entry item" and r: "\<forall>i \<in> set c. is_price_entry i" by auto
  from e obtain kvs t p x where i: "item = PDict kvs" "map_of kvs ''title'' = Some (PStr t)"
    "map_of kvs ''price'' = Some p" by (rule entry_fields)
  show ?case using Cons.IH [OF r] unfolding price_map_Cons [OF i] by (simp add: map_add_def)
qed

lemma encodable_append: "encodable F (xs @ ys) = (encodable F xs \<and> encodable F ys)"
  by (simp add: encodable_def)

lemma encodable_warning: "encodable F (warning F (PStr n)) = encodable F n"
  by (simp add: warning_def encodable_append) (simp add: encodable_def is_ascii_def)

lemma encodable_warning_None: "encodable F (warning F PNone)"
  by (simp add: warning_def encodable_def is_ascii_def)

lemma sales_loop_total:
  assumes c: "\<forall>item \<in> set c. is_price_entry item"
  shows "\<forall>sale \<in> set s. is_sale_record sale \<and> sale_fits c sale \<and> printable F c sale \<Longrightarrow>
         snd (sales_loop F (price_map c) s t out) =
           Inr (foldl fadd t (map (sale_cost c) (filter (resolvable c) s)))"
proof (induction s arbitrary: t out)
  case Nil
  then show ?case by simp
next
  case (Cons sale s)
  from Cons.prems have e: "is_sale_record sale" and f: "sale_fits c sale"
    and pr: "printable F c sale"
    and r: "\<forall>x \<in> set s. is_sale_record x \<and> sale_fits c x \<and> printable F c x" by auto
  from e obtain kvs n q y where i: "sale = PDict kvs"
    and n: "map_of kvs ''Product'' = Some (PStr n)"
    and q: "map_of kvs ''Quantity'' = Some q" and y: "as_number q = Some y"
    by (rule sale_fields)
  have tx: "text_of (field sale ''Product'') = n" using i n by (simp add: text_of_def)
  have nm: "number_of (field sale ''Quantity'') = y" using i q y by (simp add: number_of_def)
  show ?case
  proof (cases "price_map c (KStr n)")
    case None
    with price_map_lookup [OF c, of n] have "catalogue_price c n = None" by simp
    then have nr: "\<not> resolvable c sale" by (simp add: resolvable_def tx)
    with pr have "encodable F n" by (simp add: printable_def tx)
    then show ?thesis using nr None i n q Cons.IH [OF r]
      by (simp add: py_print_def encodable_warning)
  next
    case (Some p)
    with price_map_lookup [OF c, of n] obtain x where x: "as_number p = Some x"
      and cp: "catalogue_price c n = Some x" by auto
    have res: "resolvable c sale" by (simp add: resolvable_def tx cp)
    have "fits x y" using f by (simp add: sale_fits_def tx nm cp)
    from step_fits [OF x y this, of F t] obtain v where v: "py_mul F p q = Inr v"
      and a: "add_to_total t v = Inr (fadd t (float_value (times x y)))" by blast
    have sc: "sale_cost c sale = float_value (times x y)" by (simp add: sale_cost_def tx nm cp)
    show ?thesis using Some i n q v a res sc Cons.IH [OF r] by simp
  qed
qed

lemma cat1_entries: "\<forall>item \<in> set cat1. is_price_entry item"
  by (simp add: cat1_def is_price_entry_def)

lemma catalogue_price_cat1:
  "catalogue_price cat1 = [''A'' \<mapsto> NFloat (Fin 10), ''B'' \<mapsto> NFloat (Fin (5 / 2))]"
  by (simp add: catalogue_price_def cat1_def text_of_def number_of_def fun_eq_iff)

lemma sales_loop_step:
  "sales_loop F pp (sale # s) t out =
     (case sale_step F pp sale t of
        Inl e \<Rightarrow> (out, Inl e)
      | Inr (t', ws) \<Rightarrow> sales_loop F pp s t' (out @ ws))"
  by (simp add: sale_step_def py_print_def split: sum.split option.split)

lemma sales_loop_out:
  "sales_loop F pp s t out = (out @ fst (sales_loop F pp s t []), snd (sales_loop F pp s t []))"
proof (induction s arbitrary: t out)
  case Nil
  then show ?case by simp
next
  case (Cons sale s)
  show ?case
  proof (cases "sale_step F pp sale t")
    case (Inl e)
    then show ?thesis by (simp add: sales_loop_step del: sales_loop.simps)
  next
    case (Inr r)
    obtain t' ws where r: "r = (t', ws)" by (cases r)
    show ?thesis
      using Cons.IH [of t' "out @ ws"] Cons.IH [of t' ws] Inr r
      by (simp add: sales_loop_step del: sales_loop.simps)
  qed
qed

lemma sales_loop_append:
  "sales_loop F pp (s1 @ s2) t out =
     (case sales_loop F pp s1 t out of
        (o1, Inl e) \<Rightarrow> (o1, Inl e)
      | (o1, Inr t1) \<Rightarrow> sales_loop F pp s2 t1 o1)"
proof (induction s1 arbitrary: t out)
  case Nil
  then show ?case by simp
next
  case (Cons sale s1)
  show ?case
  proof (cases "sale_step F pp sale t")
    case (Inl e)
    then show ?thesis by (simp add: sales_loop_step del: sales_loop.simps)
  next
    case (Inr r)
    obtain t' ws where r: "r = (t', ws)" by (cases r)
    show ?thesis
      using Cons.IH [of t' "out @ ws"] Inr r
      by (simp add: sales_loop_step del: sales_loop.simps)
  qed
qed

lemma unknown_record:
  assumes pp: "build_prices c Map.empty = Inr pp"
    and sale: "get_method sale ''Product'' = Inr name" "py_key name = Inr k" "pp k = None"
    and enc: "encodable F (warning F name)"
    and s1: "compute_total_cost F (PList c) (PList s1) = (out, Inr t)"
  shows "\<exists>rest r.
           compute_total_cost F (PList c) (PList (s1 @ s2)) = (out @ rest, r) \<and>
           compute_total_cost F (PList c) (PList (s1 @ sale # s2)) = (out @ [warning F name] @ rest, r)"
proof -
  from sale(1) obtain kvs where d: "sale = PDict kvs" by (cases sale) auto
  have l1: "sales_loop F pp s1 (Fin 0) [] = (out, Inr t)"
    using s1 pp by (simp add: compute_total_cost_def)
  have step: "sales_loop F pp (sale # s2) t out = sales_loop F pp s2 t (out @ [warning F name])"
    using sale d enc by (simp add: py_print_def)
  have a: "compute_total_cost F (PList c) (PList (s1 @ s2)) = sales_loop F pp s2 t out"
    using pp l1 by (simp add: compute_total_cost_def sales_loop_append)
  have b: "compute_total_cost F (PList c) (PList (s1 @ sale # s2)) =
             sales_loop F pp s2 t (out @ [warning F name])"
    using pp l1 step by (simp add: compute_total_cost_def sales_loop_append)
  show ?thesis
    unfolding a b
    using sales_loop_out [of F pp s2 t out] sales_loop_out [of F pp s2 t "out @ [warning F name]"]
    by (metis append.assoc)
qed

lemma build_prices_cat1: "build_prices cat1 Map.empty = Inr (price_map cat1)"
  using build_prices_entries [OF cat1_entries, of Map.empty] by simp

lemma price_map_cat1:
  "price_map cat1 = [KStr ''A'' \<mapsto> PFloat (Fin 10), KStr ''B'' \<mapsto> PFloat (Fin (5 / 2))]"
  by (simp add: price_map_def cat1_def text_of_def fun_eq_iff)

lemma cost_sale_A: "compute_total_cost fmt0 (PList cat1) (PList [sale_A]) = ([], Inr (Fin 30))"
  by (simp add: compute_total_cost_def build_prices_cat1 price_map_cat1 sale_A_def py_mul_def
      add_to_total_def int_to_float_def rd_eval)

lemma cost_no_sale: "compute_total_cost fmt0 (PList cat1) (PList []) = ([], Inr (Fin 0))"
  by (simp add: compute_total_cost_def build_prices_cat1)

lemma sales2_records:
  "\<forall>sale \<in> set sales2. is_sale_record sale \<and> sale_fits cat1 sale \<and> printable fmt0 cat1 sale"
  by (simp add: sales2_def sale_A_def sale_B_def sale_C_def is_sale_record_def sale_fits_def
      printable_def resolvable_def encodable_def fmt0_def catalogue_price_cat1 text_of_def
      number_of_def finite_double_def rd_eval)

lemma spec_total_sales2: "spec_total cat1 sales2 = Fin 35"
  by (simp add: spec_total_def sales2_def sale_A_def sale_B_def sale_C_def resolvable_def
      sale_cost_def catalogue_price_cat1 text_of_def number_of_def rd_eval)

lemma price_map_append: "price_map (xs @ ys) = price_map xs ++ price_map ys"
  unfolding price_map_def map_append rev_append by (rule map_of_append)

lemma price_map_absent:
  "\<forall>i \<in> set c. field i ''title'' \<noteq> Some (PStr t) \<and> is_price_entry i \<Longrightarrow> price_map c (KStr t) = None"
proof (induction c)
  case Nil
  then show ?case by (simp add: price_map_def)
next
  case (Cons item c)
  from Cons.prems have e: "is_price_entry item" and ne: "field item ''title'' \<noteq> Some (PStr t)"
    and r: "\<forall>i \<in> set c. field i ''title'' \<noteq> Some (PStr t) \<and> is_price_entry i" by auto
  from e obtain kvs t' p x where i: "item = PDict kvs" "map_of kvs ''title'' = Some (PStr t')"
    "map_of kvs ''price'' = Some p" by (rule entry_fields)
  have "t' \<noteq> t" using ne i by auto
  then show ?case using Cons.IH [OF r] unfolding price_map_Cons [OF i] by (simp add: map_add_def)
qed

lemma price_map_last:
  assumes "item = PDict kvs" "map_of kvs ''title'' = Some (PStr t)" "map_of kvs ''price'' = Some p"
    and "\<forall>i \<in> set c2. field i ''title'' \<noteq> Some (PStr t) \<and> is_price_entry i"
  shows "price_map (c1 @ item # c2) (KStr t) = Some p"
proof -
  have "price_map (c1 @ item # c2) = price_map c1 ++ ([KStr t \<mapsto> p] ++ price_map c2)"
    unfolding price_map_append price_map_Cons [OF assms(1,2,3)] ..
  then show ?thesis using price_map_absent [OF assms(4)] by (simp add: map_add_def)
qed

lemma subscript_error: "subscript item k = Inl e \<Longrightarrow> e = KeyError \<or> e = TypeError"
  by (cases item) (auto split: option.splits)

lemma py_key_error: "py_key v = Inl e \<Longrightarrow> e = TypeError"
  by (cases v rule: py_key.cases) auto

lemma build_prices_error: "build_prices c m = Inl e \<Longrightarrow> e = KeyError \<or> e = TypeError"
proof (induction c arbitrary: m)
  case Nil
  then show ?case by simp
next
  case (Cons item c)
  then show ?case
    by (auto split: sum.splits dest: subscript_error py_key_error)
qed

lemma build_prices_lacks_key:
  "\<exists>i \<in> set c. lacks_key i \<Longrightarrow> \<exists>e. build_prices c m = Inl e"
proof (induction c arbitrary: m)
  case Nil
  then show ?case by simp
next
  case (Cons item c)
  show ?case
  proof (cases "lacks_key item")
    case True
    then obtain kvs where "item = PDict kvs"
      "map_of kvs ''title'' = None \<or> map_of kvs ''price'' = None"
      by (cases item) (auto simp: lacks_key_def)
    then show ?thesis by (auto split: option.splits)
  next
    case False
    with Cons.prems have x: "\<exists>i \<in> set c. lacks_key i" by auto
    show ?thesis using Cons.IH [OF x] by (auto split: sum.splits)
  qed
qed

lemma try_body_clock:
  assumes "load E1 = load E2" "open_results E1 = open_results E2"
  shows "fst (try_body F E1 p s) = fst (try_body F E2 p s) \<and>
         snd (snd (try_body F E1 p s)) = snd (snd (try_body F E2 p s)) \<and>
         map_option (take 1) (fst (snd (try_body F E1 p s))) =
           map_option (take 1) (fst (snd (try_body F E2 p s)))"
  by (simp add: try_body_def assms split: load_result.split prod.split sum.split option.split)

lemma py_mul_None: "py_mul F p PNone = Inl TypeError"
  by (cases p) (auto simp: py_mul_def split: pynum.splits option.splits)

lemma bitlen_nonneg: "0 \<le> bitlen n"
proof (induction n rule: bitlen.induct)
  case (1 n)
  show ?case
  proof (cases "n \<le> 0")
    case True
    then show ?thesis by (simp add: bitlen.simps)
  next
    case False
    then show ?thesis using 1 by (subst bitlen.simps) simp
  qed
qed

lemma bitlen_le: "n < 2 ^ m \<Longrightarrow> bitlen n \<le> int m"
proof (induction m arbitrary: n)
  case 0
  then show ?case by (simp add: bitlen.simps)
next
  case (Suc m)
  show ?case
  proof (cases "n \<le> 0")
    case True
    then show ?thesis by (simp add: bitlen.simps)
  next
    case False
    have "n div 2 < 2 ^ m" using Suc.prems by simp
    from Suc.IH [OF this] show ?thesis using False by (subst bitlen.simps) simp
  qed
qed

lemma round_half_even_int: "round_half_even (of_int z) = z"
  by (simp add: round_half_even_def)

text \<open>An integer of magnitude below \<open>2^53\<close> is a double.\<close>

lemma round_double_int:
  assumes "\<bar>n\<bar> < 2 ^ 53"
  shows "round_double (of_int n) = Fin (of_int n)"
proof (cases "n = 0")
  case True
  then show ?thesis by (simp add: round_double_def)
next
  case False
  define b where "b = bitlen \<bar>n\<bar>"
  have b: "0 \<le> b" "b \<le> 53" using bitlen_nonneg [of "\<bar>n\<bar>"] bitlen_le [OF assms] by (simp_all add: b_def)
  have ab: "\<bar>of_int n :: real\<bar> = of_int \<bar>n\<bar>" by simp
  have "1 \<le> \<bar>n\<bar>" using False by simp
  then have one: "(1::real) \<le> \<bar>of_int n\<bar>" unfolding ab by (simp only: of_int_1_le_iff)
  have fl: "\<lfloor>\<bar>of_int n :: real\<bar>\<rfloor> = \<bar>n\<bar>" unfolding ab by (rule floor_of_int)
  have il: "ilog2 (of_int n) = b - 1" using one fl by (simp add: ilog2_def b_def)
  define j where "j = nat (53 - b)"
  have k: "max (ilog2 (of_int n) - 52) (- 1074) = - int j" using b il by (simp add: j_def)
  have p: "power_int (2::real) (- int j) = 1 / 2 ^ j" by (simp add: power_int_minus field_simps)
  have q: "of_int n / power_int (2::real) (- int j) = of_int (n * 2 ^ j)" by (simp add: p)
  have r: "of_int (round_half_even (of_int n / power_int (2::real) (- int j))) * power_int (2::real) (- int j) = of_int n"
    unfolding q round_half_even_int by (simp add: p)
  have "(of_int \<bar>n\<bar> :: real) < of_int (2 ^ 53)" using assms by (simp only: of_int_less_iff)
  then have lt: "\<bar>of_int n :: real\<bar> < 2 ^ 53" unfolding ab by simp
  have "(2::real) ^ 53 < 2 ^ 1024" by simp
  with lt have bd: "(of_int n :: real) < 2 ^ 1024" "- (2 ^ 1024) < (of_int n :: real)" by linarith+
  have nz: "(of_int n :: real) \<noteq> 0" using False by simp
  show ?thesis
    unfolding round_double_def Let_def k r using nz bd by simp
qed

lemma fold_exact:
  "\<bar>a\<bar> + sum_list (map abs zs) < 2 ^ 53 \<Longrightarrow>
   foldl fadd (Fin (of_int a)) (map (\<lambda>z. Fin (of_int z)) zs) = Fin (of_int (a + sum_list zs))"
proof (induction zs arbitrary: a)
  case Nil
  then show ?case by simp
next
  case (Cons z zs)
  have nn: "0 \<le> sum_list (map abs zs)" by (rule sum_list_nonneg) auto
  have s: "\<bar>a + z\<bar> < 2 ^ 53" using Cons.prems nn by simp
  have "fadd (Fin (of_int a)) (Fin (of_int z)) = round_double (of_int (a + z))" by simp
  also have "\<dots> = Fin (of_int (a + z))" using s by (rule round_double_int)
  finally have f: "fadd (Fin (of_int a)) (Fin (of_int z)) = Fin (of_int (a + z))" .
  have "\<bar>a + z\<bar> + sum_list (map abs zs) < 2 ^ 53" using Cons.prems by simp
  from Cons.IH [OF this] show ?case using f by (simp add: add.assoc)
qed

lemma abs_le_sum_list: "x \<in> set xs \<Longrightarrow> \<bar>f x\<bar> \<le> sum_list (map (\<lambda>x. \<bar>f x :: int\<bar>) xs)"
proof (induction xs)
  case Nil
  then show ?case by simp
next
  case (Cons y xs)
  have nn: "0 \<le> sum_list (map (\<lambda>x. \<bar>f x\<bar>) xs)" by (rule sum_list_nonneg) auto
  show ?case
  proof (cases "x = y")
    case True
    then show ?thesis using nn by simp
  next
    case False
    with Cons have "\<bar>f x\<bar> \<le> sum_list (map (\<lambda>x. \<bar>f x\<bar>) xs)" by simp
    then show ?thesis by simp
  qed
qed

lemma integral_cost:
  assumes "integral c sale" and "\<bar>exact_cost c sale\<bar> < 2 ^ 53"
  shows "resolvable c sale \<and> sale_fits c sale \<and> sale_cost c sale = Fin (of_int (exact_cost c sale))"
proof -
  from assms(1) obtain p q where p: "catalogue_price c (text_of (field sale ''Product'')) = Some (NInt p)"
    and q: "number_of (field sale ''Quantity'') = NInt q"
    by (auto simp: integral_def split: option.splits pynum.splits)
  have e: "exact_cost c sale = p * q" by (simp add: exact_cost_def p q)
  have r: "round_double (of_int (p * q)) = Fin (of_int (p * q))"
    using assms(2) unfolding e by (rule round_double_int)
  show ?thesis using r
    by (simp add: resolvable_def sale_fits_def sale_cost_def finite_double_def p q e)
qed

lemma spec_total_integral:
  assumes "\<forall>sale \<in> set s. integral c sale"
    and "sum_list (map (\<lambda>sale. \<bar>exact_cost c sale\<bar>) s) < 2 ^ 53"
  shows "spec_total c s = Fin (of_int (sum_list (map (exact_cost c) s))) \<and>
         (\<forall>sale \<in> set s. sale_fits c sale \<and> resolvable c sale)"
proof -
  have each: "\<forall>sale \<in> set s. resolvable c sale \<and> sale_fits c sale \<and>
      sale_cost c sale = Fin (of_int (exact_cost c sale))"
  proof
    fix sale assume m: "sale \<in> set s"
    have "\<bar>exact_cost c sale\<bar> < 2 ^ 53"
      using abs_le_sum_list [OF m, of "exact_cost c"] assms(2) by linarith
    with assms(1) m show "resolvable c sale \<and> sale_fits c sale \<and>
      sale_cost c sale = Fin (of_int (exact_cost c sale))" by (simp add: integral_cost)
  qed
  then have f: "filter (resolvable c) s = s" by simp
  have m: "map (sale_cost c) s = map (\<lambda>z. Fin (of_int z)) (map (exact_cost c) s)"
    using each by simp
  have a: "\<bar>0::int\<bar> + sum_list (map abs (map (exact_cost c) s)) < 2 ^ 53"
    using assms(2) by (simp add: comp_def)
  have "spec_total c s = foldl fadd (Fin (of_int 0)) (map (\<lambda>z. Fin (of_int z)) (map (exact_cost c) s))"
    unfolding spec_total_def f m by simp
  also have "\<dots> = Fin (of_int (0 + sum_list (map (exact_cost c) s)))" using a by (rule fold_exact)
  finally show ?thesis using each by simp
qed

lemma integral_total:
  assumes "\<forall>item \<in> set c. is_price_entry item"
    and "\<forall>sale \<in> set s. is_sale_record sale \<and> integral c sale"
    and "sum_list (map (\<lambda>sale. \<bar>exact_cost c sale\<bar>) s) < 2 ^ 53"
  shows "snd (compute_total_cost F (PList c) (PList s)) =
           Inr (Fin (of_int (sum_list (map (exact_cost c) s))))"
proof -
  have i: "\<forall>sale \<in> set s. integral c sale" using assms(2) by simp
  from spec_total_integral [OF i assms(3)]
  have t: "spec_total c s = Fin (of_int (sum_list (map (exact_cost c) s)))"
    and r: "\<forall>sale \<in> set s. sale_fits c sale \<and> resolvable c sale" by simp_all
  have h: "\<forall>sale \<in> set s. is_sale_record sale \<and> sale_fits c sale \<and> printable F c sale"
    using assms(2) r by (simp add: printable_def)
  show ?thesis
    using sales_loop_total [OF assms(1) h, of "Fin 0" "[]"]
      build_prices_entries [OF assms(1), of Map.empty] t
    by (simp add: compute_total_cost_def spec_total_def)
qed

lemma sum_list_mset: "mset xs = mset ys \<Longrightarrow> sum_list (map f xs) = sum_list (map (f :: 'a \<Rightarrow> int) ys)"
proof -
  assume "mset xs = mset ys"
  then have "mset (map f xs) = mset (map f ys)" by (metis mset_map)
  then show ?thesis by (metis sum_mset_sum_list)
qed

lemma catalogue_price_cat_int:
  "catalogue_price cat_int = [''A'' \<mapsto> NInt 10, ''B'' \<mapsto> NInt 7]"
  by (simp add: catalogue_price_def cat_int_def text_of_def number_of_def fun_eq_iff)

section \<open>The claims\<close>

text \<open>
  C1, as stated, fails: \<^verbatim>\<open>compute_total_cost\<close> returns no sum on inputs that have all
  four keys. A catalogue entry with the integer price \<open>2^600\<close> and a sale record of that
  product with the integer quantity \<open>2^600\<close>: the exact integer product cannot be added
  to the float total and the call ends with OverflowError. A price that is the string
  \<^verbatim>\<open>abc\<close> and the quantity 3: the product is the string \<^verbatim>\<open>abcabcabc\<close>, and adding it
  to the total raises TypeError. A product the catalogue lacks, with a name that an
  ASCII standard output cannot encode: the \<^verbatim>\<open>print\<close> of its warning raises
  UnicodeEncodeError and the record after it, worth 30, is not added.
\<close>

theorem total_not_returned:
  "list_all is_price_entry cat_big \<and> list_all is_sale_record sales_big \<and>
   list_all (resolvable cat_big) sales_big \<and>
   compute_total_cost fmt0 (PList cat_big) (PList sales_big) = ([], Inl OverflowError) \<and>
   compute_total_cost fmt0 (PList cat_text) (PList [sale_B, sale_A]) =
     (['' Product B not found in the price catalogue.''], Inl TypeError) \<and>
   list_all is_price_entry cat1 \<and> list_all is_sale_record [sale_accent, sale_A] \<and>
   compute_total_cost fmt_ascii (PList cat1) (PList [sale_accent, sale_A]) =
     ([], Inl UnicodeEncodeError)"
proof -
  have a: "list_all is_price_entry cat_big \<and> list_all is_sale_record sales_big \<and>
      list_all (resolvable cat_big) sales_big \<and>
      compute_total_cost fmt0 (PList cat_big) (PList sales_big) = ([], Inl OverflowError)"
    using bitlen_pow2 [of 1200]
    by (simp add: cat_big_def sales_big_def is_price_entry_def is_sale_record_def resolvable_def
        catalogue_price_def text_of_def number_of_def compute_total_cost_def py_mul_def
        add_to_total_def int_to_float_def round_double_def ilog2_def round_half_even_def Let_def)
  have b: "compute_total_cost fmt0 (PList cat_text) (PList [sale_B, sale_A]) =
      (['' Product B not found in the price catalogue.''], Inl TypeError)"
    by (simp add: compute_total_cost_def cat_text_def sale_A_def sale_B_def py_print_def
        encodable_def warning_def py_mul_def add_to_total_def repeat_count_def ssize_max_def
        fmt0_def)
  have c: "list_all is_price_entry cat1 \<and> list_all is_sale_record [sale_accent, sale_A] \<and>
      compute_total_cost fmt_ascii (PList cat1) (PList [sale_accent, sale_A]) =
        ([], Inl UnicodeEncodeError)"
    by (simp add: compute_total_cost_def build_prices_cat1 price_map_cat1 sale_accent_def
        sale_A_def py_print_def encodable_def is_ascii_def warning_def fmt_ascii_def fmt0_def
        cat1_def is_price_entry_def is_sale_record_def)
  show ?thesis using a b c by simp
qed

text \<open>
  C1, amended. For a catalogue of price entries (string \<open>title\<close>, numeric \<open>price\<close>) and a
  list of sale records (string \<open>Product\<close>, numeric \<open>Quantity\<close>) in which no integer
  is too large to become a float and the standard output can encode every product
  name the catalogue lacks, \<^verbatim>\<open>compute_total_cost\<close> returns the sum, in float
  arithmetic and in record order, over exactly the sale records whose product is a
  key of the catalogue mapping, of the catalogue price times the quantity; the
  other records contribute nothing.
\<close>

theorem compute_total_cost_sum:
  assumes "\<forall>item \<in> set c. is_price_entry item"
    and "\<forall>sale \<in> set s. is_sale_record sale \<and> sale_fits c sale \<and> printable F c sale"
  shows "snd (compute_total_cost F (PList c) (PList s)) = Inr (spec_total c s)"
  using sales_loop_total [OF assms, of "Fin 0" "[]"] build_prices_entries [OF assms(1), of Map.empty]
  by (simp add: compute_total_cost_def spec_total_def)

theorem compute_total_cost_sum_witness:
  "list_all is_price_entry cat1 \<and>
   list_all (\<lambda>sale. is_sale_record sale \<and> sale_fits cat1 sale \<and> printable fmt0 cat1 sale) sales2 \<and>
   list_all (resolvable cat1) [sale_A, sale_B] \<and>
   snd (compute_total_cost fmt0 (PList cat1) (PList sales2)) = Inr (Fin 35)"
proof -
  have r: "list_all (resolvable cat1) [sale_A, sale_B]"
    by (simp add: sale_A_def sale_B_def resolvable_def catalogue_price_cat1 text_of_def)
  from compute_total_cost_sum [OF cat1_entries sales2_records]
  show ?thesis using cat1_entries sales2_records spec_total_sales2 r
    by (simp add: list_all_iff)
qed

text \<open>
  C2, as stated, fails, for integers and for decimals. With the integer prices
  \<open>2^53\<close> for A and 1 for B, the sales A, B, B (quantity 1 each) total
  9007199254740992.0 and the same sales in the order B, B, A total
  9007199254740994.0. With the prices 0.1, 0.2 and 0.3 for A, B and C, the sales
  A, B, C total 0.6000000000000001 and the sales C, B, A total 0.6. Every product
  is in the catalogue and every quantity is positive.
\<close>

theorem order_changes_total:
  "mset [sale_B1, sale_B1, sale_A1] = mset [sale_A1, sale_B1, sale_B1] \<and>
   compute_total_cost fmt0 (PList cat_order) (PList [sale_A1, sale_B1, sale_B1]) =
     ([], Inr (Fin 9007199254740992)) \<and>
   compute_total_cost fmt0 (PList cat_order) (PList [sale_B1, sale_B1, sale_A1]) =
     ([], Inr (Fin 9007199254740994)) \<and>
   mset [sale_C1, sale_B1, sale_A1] = mset [sale_A1, sale_B1, sale_C1] \<and>
   compute_total_cost fmt0 (PList cat_tenths) (PList [sale_A1, sale_B1, sale_C1]) =
     ([], Inr (Fin (5404319552844596 / 2 ^ 53))) \<and>
   compute_total_cost fmt0 (PList cat_tenths) (PList [sale_C1, sale_B1, sale_A1]) =
     ([], Inr (Fin (5404319552844595 / 2 ^ 53)))"
proof -
  have a: "compute_total_cost fmt0 (PList cat_order) (PList [sale_A1, sale_B1, sale_B1]) =
     ([], Inr (Fin 9007199254740992))"
    by (simp add: compute_total_cost_def cat_order_def sale_A1_def sale_B1_def py_mul_def
        add_to_total_def int_to_float_def rd_eval)
  have b: "compute_total_cost fmt0 (PList cat_order) (PList [sale_B1, sale_B1, sale_A1]) =
     ([], Inr (Fin 9007199254740994))"
    by (simp add: compute_total_cost_def cat_order_def sale_A1_def sale_B1_def py_mul_def
        add_to_total_def int_to_float_def rd_eval)
  have c: "compute_total_cost fmt0 (PList cat_tenths) (PList [sale_A1, sale_B1, sale_C1]) =
     ([], Inr (Fin (5404319552844596 / 2 ^ 53)))"
    by (simp add: compute_total_cost_def cat_tenths_def sale_A1_def sale_B1_def sale_C1_def
        py_mul_def add_to_total_def int_to_float_def rd_eval)
  have d: "compute_total_cost fmt0 (PList cat_tenths) (PList [sale_C1, sale_B1, sale_A1]) =
     ([], Inr (Fin (5404319552844595 / 2 ^ 53)))"
    by (simp add: compute_total_cost_def cat_tenths_def sale_A1_def sale_B1_def sale_C1_def
        py_mul_def add_to_total_def int_to_float_def rd_eval)
  have m: "mset [sale_B1, sale_B1, sale_A1] = mset [sale_A1, sale_B1, sale_B1]"
    "mset [sale_C1, sale_B1, sale_A1] = mset [sale_A1, sale_B1, sale_C1]"
    by (simp_all add: add_mset_commute)
  show ?thesis using a b c d m by simp
qed

text \<open>
  C2, amended. For a catalogue of price entries and sale records whose products are
  in the catalogue, when every price and quantity is an integer and the magnitudes
  of the products price times quantity add up to less than \<open>2^53\<close>,
  \<^verbatim>\<open>compute_total_cost\<close> returns the same total for every permutation of the sale
  records: the exact sum.
\<close>

theorem total_order_independent:
  assumes "\<forall>item \<in> set c. is_price_entry item"
    and "\<forall>sale \<in> set s. is_sale_record sale \<and> integral c sale"
    and "sum_list (map (\<lambda>sale. \<bar>exact_cost c sale\<bar>) s) < 2 ^ 53"
    and "mset s' = mset s"
  shows "snd (compute_total_cost F (PList c) (PList s')) =
           snd (compute_total_cost F (PList c) (PList s)) \<and>
         snd (compute_total_cost F (PList c) (PList s)) =
           Inr (Fin (of_int (sum_list (map (exact_cost c) s))))"
proof -
  have s: "set s' = set s" using assms(4) by (rule mset_eq_setD)
  have r: "\<forall>sale \<in> set s'. is_sale_record sale \<and> integral c sale" using assms(2) s by simp
  have b: "sum_list (map (\<lambda>sale. \<bar>exact_cost c sale\<bar>) s') < 2 ^ 53"
    using assms(3) sum_list_mset [OF assms(4), of "\<lambda>sale. \<bar>exact_cost c sale\<bar>"] by simp
  have e: "sum_list (map (exact_cost c) s') = sum_list (map (exact_cost c) s)"
    using assms(4) by (rule sum_list_mset)
  show ?thesis
    using integral_total [OF assms(1) r b, of F] integral_total [OF assms(1,2,3), of F] e by simp
qed

theorem total_order_independent_witness:
  "list_all is_price_entry cat_int \<and>
   list_all (\<lambda>sale. is_sale_record sale \<and> integral cat_int sale) [sale_A, sale_B] \<and>
   sum_list (map (\<lambda>sale. \<bar>exact_cost cat_int sale\<bar>) [sale_A, sale_B]) = 44 \<and>
   mset [sale_B, sale_A] = mset [sale_A, sale_B] \<and>
   snd (compute_total_cost fmt0 (PList cat_int) (PList [sale_B, sale_A])) = Inr (Fin 44) \<and>
   snd (compute_total_cost fmt0 (PList cat_int) (PList [sale_A, sale_B])) = Inr (Fin 44)"
proof -
  have c: "\<forall>item \<in> set cat_int. is_price_entry item"
    by (simp add: cat_int_def is_price_entry_def)
  have r: "\<forall>sale \<in> set [sale_A, sale_B]. is_sale_record sale \<and> integral cat_int sale"
    by (simp add: sale_A_def sale_B_def is_sale_record_def integral_def catalogue_price_cat_int
        text_of_def number_of_def)
  have x: "map (exact_cost cat_int) [sale_A, sale_B] = [30, 14]"
    by (simp add: sale_A_def sale_B_def exact_cost_def catalogue_price_cat_int text_of_def
        number_of_def)
  have v: "sum_list (map (\<lambda>sale. \<bar>exact_cost cat_int sale\<bar>) [sale_A, sale_B]) = 44"
    by (simp add: sale_A_def sale_B_def exact_cost_def catalogue_price_cat_int text_of_def
        number_of_def)
  have b: "sum_list (map (\<lambda>sale. \<bar>exact_cost cat_int sale\<bar>) [sale_A, sale_B]) < 2 ^ 53"
    unfolding v by simp
  have m: "mset [sale_B, sale_A] = mset [sale_A, sale_B]" by (simp add: add_mset_commute)
  from total_order_independent [OF c r b m, of fmt0]
  show ?thesis using c r v m unfolding x by (simp add: list_all_iff)
qed

text \<open>
  C3, as stated, fails: on a standard output that encodes ASCII only, a sale record
  whose product \<open>Caf\<acute>e\<close> is not a key of the catalogue mapping ends the loop with
  UnicodeEncodeError, raised by the \<^verbatim>\<open>print\<close> of the warning; no line is printed and
  the next record, worth 30, is not processed.
\<close>

theorem unprintable_product_aborts:
  "get_method sale_accent ''Product'' = Inr (PStr [CHR ''C'', CHR ''a'', CHR ''f'', CHR 0xE9]) \<and>
   price_map cat1 (KStr [CHR ''C'', CHR ''a'', CHR ''f'', CHR 0xE9]) = None \<and>
   compute_total_cost fmt_ascii (PList cat1) (PList [sale_A]) = ([], Inr (Fin 30)) \<and>
   compute_total_cost fmt_ascii (PList cat1) (PList [sale_accent, sale_A]) =
     ([], Inl UnicodeEncodeError)"
  by (simp add: compute_total_cost_def build_prices_cat1 price_map_cat1 sale_accent_def sale_A_def
      py_print_def encodable_def is_ascii_def warning_def fmt_ascii_def fmt0_def py_mul_def
      add_to_total_def int_to_float_def rd_eval)

text \<open>
  C3, amended. A sale record whose \<open>Product\<close> is not a key of the catalogue mapping and
  whose warning line the standard output can encode adds nothing to the total, prints
  exactly one line \<^verbatim>\<open> Product <name> not found in the price catalogue.\<close> naming the
  product, and the loop goes on with the next record: inserting such a record after
  records \<open>s1\<close> that were processed without an exception leaves the outcome of every
  continuation \<open>s2\<close> as it was and inserts that one line where the record stands.
\<close>

theorem unknown_product_warned:
  assumes "build_prices c Map.empty = Inr product_prices"
    and "sale = PDict kvs" and "map_of kvs ''Product'' = Some name"
    and "py_key name = Inr k" and "product_prices k = None"
    and "encodable F ('' Product '' @ py_str F name @ '' not found in the price catalogue.'')"
    and "compute_total_cost F (PList c) (PList s1) = (out, Inr t)"
  shows "\<exists>rest r.
           compute_total_cost F (PList c) (PList (s1 @ s2)) = (out @ rest, r) \<and>
           compute_total_cost F (PList c) (PList (s1 @ sale # s2)) =
             (out @ ['' Product '' @ py_str F name @ '' not found in the price catalogue.''] @ rest, r)"
proof -
  have g: "get_method sale ''Product'' = Inr name" using assms(2,3) by simp
  have e: "encodable F (warning F name)" using assms(6) by (simp add: warning_def)
  show ?thesis
    using unknown_record [OF assms(1) g assms(4,5) e assms(7), of s2] by (simp add: warning_def)
qed

theorem unknown_product_warned_witness:
  "build_prices cat1 Map.empty = Inr (price_map cat1) \<and>
   sale_C = PDict [(''Product'', PStr ''C''), (''Quantity'', PInt 1)] \<and>
   py_key (PStr ''C'') = Inr (KStr ''C'') \<and> price_map cat1 (KStr ''C'') = None \<and>
   encodable fmt0 ('' Product '' @ py_str fmt0 (PStr ''C'') @ '' not found in the price catalogue.'') \<and>
   compute_total_cost fmt0 (PList cat1) (PList [sale_A]) = ([], Inr (Fin 30)) \<and>
   compute_total_cost fmt0 (PList cat1) (PList [sale_A, sale_C, sale_B]) =
     (['' Product C not found in the price catalogue.''], Inr (Fin 35))"
proof -
  have n: "price_map cat1 (KStr ''C'') = None" by (simp add: price_map_cat1)
  have m: "map_of [(''Product'', PStr ''C''), (''Quantity'', PInt 1)] ''Product'' = Some (PStr ''C'')"
    by simp
  have k: "py_key (PStr ''C'') = Inr (KStr ''C'')" by simp
  have e: "encodable fmt0 ('' Product '' @ py_str fmt0 (PStr ''C'') @ '' not found in the price catalogue.'')"
    by (simp add: encodable_def fmt0_def)
  have b: "compute_total_cost fmt0 (PList cat1) (PList [sale_A, sale_B]) = ([], Inr (Fin 35))"
    by (simp add: compute_total_cost_def build_prices_cat1 price_map_cat1 sale_A_def sale_B_def
        py_mul_def add_to_total_def int_to_float_def rd_eval)
  from unknown_product_warned [OF build_prices_cat1 sale_C_def m k n e cost_sale_A, of "[sale_B]"]
  show ?thesis using build_prices_cat1 n e cost_sale_A b by (auto simp: sale_C_def)
qed

text \<open>
  C10. A sale record without a \<open>Product\<close> key (also one that only has a differently
  cased key such as \<open>product\<close>) does not raise: with a catalogue of price entries it
  takes the unknown-product branch, adds nothing to the total and prints one warning
  that names the product \<open>None\<close>.
\<close>

theorem missing_product_warned:
  assumes "\<forall>item \<in> set c. is_price_entry item"
    and "sale = PDict kvs" and "map_of kvs ''Product'' = None"
    and "compute_total_cost F (PList c) (PList s1) = (out, Inr t)"
  shows "\<exists>rest r.
           compute_total_cost F (PList c) (PList (s1 @ s2)) = (out @ rest, r) \<and>
           compute_total_cost F (PList c) (PList (s1 @ sale # s2)) =
             (out @ ['' Product None not found in the price catalogue.''] @ rest, r)"
proof -
  have pp: "build_prices c Map.empty = Inr (price_map c)"
    using build_prices_entries [OF assms(1), of Map.empty] by simp
  have g: "get_method sale ''Product'' = Inr PNone" using assms(2,3) by simp
  have k: "py_key PNone = Inr KNone" by simp
  show ?thesis
    using unknown_record [OF pp g k price_map_None [OF assms(1)] encodable_warning_None assms(4),
        of s2]
    by (simp add: warning_def)
qed

theorem missing_product_warned_witness:
  "list_all is_price_entry cat1 \<and>
   sale_lowercase = PDict [(''product'', PStr ''A''), (''Quantity'', PInt 3)] \<and>
   map_of [(''product'', PStr ''A''), (''Quantity'', PInt 3)] ''Product'' = None \<and>
   compute_total_cost fmt0 (PList cat1) (PList []) = ([], Inr (Fin 0)) \<and>
   compute_total_cost fmt0 (PList cat1) (PList [sale_lowercase]) =
     (['' Product None not found in the price catalogue.''], Inr (Fin 0))"
proof -
  have m: "map_of [(''product'', PStr ''A''), (''Quantity'', PInt 3)] ''Product'' = None" by simp
  from missing_product_warned [OF cat1_entries sale_lowercase_def m cost_no_sale, of "[]"]
  show ?thesis using cat1_entries cost_no_sale by (auto simp: sale_lowercase_def list_all_iff)
qed

text \<open>
  C4. When a title occurs more than once in a catalogue of price entries, the price
  the computation uses for it is that of the last entry with the title: the catalogue
  mapping is built without an exception, it maps the title to the price \<open>p\<close> of the
  entry after which the title does not occur again, and a sale of the title is priced
  with \<open>p\<close>, nothing being printed.
\<close>

theorem last_duplicate_wins:
  assumes "\<forall>i \<in> set (c1 @ item # c2). is_price_entry i"
    and "field item ''title'' = Some (PStr t)" and "field item ''price'' = Some p"
    and "\<forall>i \<in> set c2. field i ''title'' \<noteq> Some (PStr t)"
  shows "(\<exists>product_prices. build_prices (c1 @ item # c2) Map.empty = Inr product_prices \<and>
            product_prices (KStr t) = Some p) \<and>
         compute_total_cost F (PList (c1 @ item # c2))
             (PList [PDict [(''Product'', PStr t), (''Quantity'', q)]]) =
           (case py_mul F p q of
              Inl e \<Rightarrow> ([], Inl e)
            | Inr v \<Rightarrow> (case add_to_total (Fin 0) v of Inl e \<Rightarrow> ([], Inl e) | Inr u \<Rightarrow> ([], Inr u)))"
proof -
  have "\<forall>i \<in> set c2. field i ''title'' \<noteq> Some (PStr t) \<and> is_price_entry i"
    using assms(1,4) by auto
  moreover obtain kvs where "item = PDict kvs" "map_of kvs ''title'' = Some (PStr t)"
    "map_of kvs ''price'' = Some p"
    using assms(2,3) by (cases item) auto
  ultimately have l: "price_map (c1 @ item # c2) (KStr t) = Some p"
    using price_map_last [of item _ t p c2 c1] by blast
  have b: "build_prices (c1 @ item # c2) Map.empty = Inr (price_map (c1 @ item # c2))"
    using build_prices_entries [OF assms(1), of Map.empty] by simp
  show ?thesis using l b
    by (simp add: compute_total_cost_def split: sum.split)
qed

theorem last_duplicate_wins_witness:
  "list_all is_price_entry cat_dup \<and>
   cat_dup = [cat_dup ! 0, cat_dup ! 1] @ cat_dup ! 2 # [] \<and>
   field (cat_dup ! 2) ''title'' = Some (PStr ''A'') \<and>
   field (cat_dup ! 2) ''price'' = Some (PInt 12) \<and>
   field (cat_dup ! 0) ''title'' = Some (PStr ''A'') \<and>
   field (cat_dup ! 0) ''price'' = Some (PInt 10) \<and>
   (\<exists>product_prices. build_prices cat_dup Map.empty = Inr product_prices \<and>
      product_prices (KStr ''A'') = Some (PInt 12)) \<and>
   compute_total_cost fmt0 (PList cat_dup)
       (PList [PDict [(''Product'', PStr ''A''), (''Quantity'', PInt 3)]]) = ([], Inr (Fin 36))"
proof -
  have e: "\<forall>i \<in> set ([cat_dup ! 0, cat_dup ! 1] @ cat_dup ! 2 # []). is_price_entry i"
    by (simp add: cat_dup_def is_price_entry_def)
  have t: "field (cat_dup ! 2) ''title'' = Some (PStr ''A'')" by (simp add: cat_dup_def)
  have p: "field (cat_dup ! 2) ''price'' = Some (PInt 12)" by (simp add: cat_dup_def)
  have n: "\<forall>i \<in> set []. field i ''title'' \<noteq> Some (PStr ''A'')" by simp
  have c: "cat_dup = [cat_dup ! 0, cat_dup ! 1] @ cat_dup ! 2 # []" by (simp add: cat_dup_def)
  have v: "(case py_mul fmt0 (PInt 12) (PInt 3) of
              Inl e \<Rightarrow> ([], Inl e)
            | Inr v \<Rightarrow> (case add_to_total (Fin 0) v of Inl e \<Rightarrow> ([], Inl e) | Inr u \<Rightarrow> ([], Inr u))) =
           (([] :: string list), (Inr (Fin 36) :: error + pyfloat))"
    by (simp add: py_mul_def add_to_total_def int_to_float_def rd_eval)
  from last_duplicate_wins [OF e t p n, of fmt0 "PInt 3"] e t p
  have "(\<exists>product_prices. build_prices cat_dup Map.empty = Inr product_prices \<and>
            product_prices (KStr ''A'') = Some (PInt 12)) \<and>
        compute_total_cost fmt0 (PList cat_dup)
          (PList [PDict [(''Product'', PStr ''A''), (''Quantity'', PInt 3)]]) = ([], Inr (Fin 36))"
    unfolding v c [symmetric] by simp
  then show ?thesis using e t p c by (simp add: list_all_iff cat_dup_def)
qed

text \<open>
  C9. When a catalogue entry is an object without a \<open>title\<close> or without a \<open>price\<close>,
  building the catalogue mapping raises (a KeyError, or a TypeError when an earlier
  entry is no object or has an unhashable title), \<^verbatim>\<open>compute_total_cost\<close> returns
  nothing, and no clause of \<^verbatim>\<open>main\<close> catches the exception: the run ends with it,
  nothing printed and no report written.
\<close>

theorem missing_catalogue_key_aborts:
  assumes "\<exists>i \<in> set c. lacks_key i"
    and "length argv = 3"
    and "load E (argv ! 1) = Loaded (PList c)" and "load E (argv ! 2) = Loaded s"
  shows "\<exists>e. (e = KeyError \<or> e = TypeError) \<and>
           compute_total_cost F (PList c) s = ([], Inl e) \<and>
           main F argv E = \<lparr>console = [], report = None, status = Uncaught e\<rparr>"
proof -
  from build_prices_lacks_key [OF assms(1), of Map.empty]
  obtain e where b: "build_prices c Map.empty = Inl e" by blast
  from build_prices_error [OF b] have k: "e = KeyError \<or> e = TypeError" .
  have c: "compute_total_cost F (PList c) s = ([], Inl e)"
    using b by (simp add: compute_total_cost_def)
  have "main F argv E = \<lparr>console = [], report = None, status = Uncaught e\<rparr>"
    using c k assms(2,3,4) by (auto simp: main_def try_body_def)
  with c k show ?thesis by blast
qed

theorem missing_catalogue_key_aborts_witness:
  "list_ex lacks_key cat_no_price \<and> length argv0 = 3 \<and>
   compute_total_cost fmt0 (PList cat_no_price) (PList sales1) = ([], Inl KeyError) \<and>
   main fmt0 argv0 (env0 (PList cat_no_price) (PList sales1) (Fin 0) (Fin 0)) =
     \<lparr>console = [], report = None, status = Uncaught KeyError\<rparr>"
proof -
  have b: "\<exists>i \<in> set cat_no_price. lacks_key i"
    by (simp add: cat_no_price_def lacks_key_def)
  have l: "length argv0 = 3" by (simp add: argv0_def)
  have p: "load (env0 (PList cat_no_price) (PList sales1) (Fin 0) (Fin 0)) (argv0 ! 1) =
             Loaded (PList cat_no_price)"
    by (simp add: env0_def files_def argv0_def)
  have s: "load (env0 (PList cat_no_price) (PList sales1) (Fin 0) (Fin 0)) (argv0 ! 2) =
             Loaded (PList sales1)"
    by (simp add: env0_def files_def argv0_def)
  have k: "compute_total_cost fmt0 (PList cat_no_price) (PList sales1) = ([], Inl KeyError)"
    by (simp add: compute_total_cost_def cat_no_price_def)
  from missing_catalogue_key_aborts [OF b l p s, of fmt0] b l k
  show ?thesis by (auto simp: list_ex_iff)
qed

text \<open>
  C7. With an argument count other than two (\<^verbatim>\<open>sys.argv\<close> not of length three, the
  script name included) the program prints the usage message, exits with status 1
  and writes no file.
\<close>

theorem wrong_argument_count:
  assumes "length argv \<noteq> 3"
  shows "main F argv E =
           \<lparr>console = [''Usage: python computeSales.py priceCatalogue.json sales.json''],
            report = None, status = SysExit 1\<rparr>"
  using assms by (simp add: main_def usage_def)

theorem wrong_argument_count_witness:
  "length [''computeSales.py'', ''prices.json''] \<noteq> 3 \<and>
   main fmt0 [''computeSales.py'', ''prices.json''] (env0 (PList cat1) (PList sales1) (Fin 0) (Fin 0)) =
     \<lparr>console = [''Usage: python computeSales.py priceCatalogue.json sales.json''],
      report = None, status = SysExit 1\<rparr>"
proof -
  have l: "length [''computeSales.py'', ''prices.json''] \<noteq> 3" by simp
  from wrong_argument_count [OF l] l show ?thesis by simp
qed

text \<open>
  C6, as stated, fails: when the first input file exists and may not be read,
  \<^verbatim>\<open>open\<close> raises PermissionError, which neither \<^verbatim>\<open>except\<close> clause catches: the
  program prints no error line and the run ends with the exception.
\<close>

theorem unreadable_file_uncaught:
  "length argv0 = 3 \<and>
   load env_denied (argv0 ! 1) =
     Raises (PermissionError (''[Errno 13] Permission denied: '' @ [CHR 0x27] @ ''prices.json'' @ [CHR 0x27])) \<and>
   main fmt0 argv0 env_denied =
     \<lparr>console = [], report = None,
      status = Uncaught (PermissionError
                 (''[Errno 13] Permission denied: '' @ [CHR 0x27] @ ''prices.json'' @ [CHR 0x27]))\<rparr>"
  by (simp add: main_def try_body_def env_denied_def argv0_def)

text \<open>
  C6, amended. When opening or parsing either input file fails, nothing is computed
  and no report is written. If the failure is a FileNotFoundError, or a
  JSONDecodeError, with a message the standard output can encode, the program prints
  the one line \<^verbatim>\<open>Error: <message>\<close>, or
  \<^verbatim>\<open>Error: Invalid JSON format in one file <message>\<close>, and \<^verbatim>\<open>main\<close> returns; if
  the message cannot be encoded the run ends with UnicodeEncodeError; any other
  failure is not caught: the program prints nothing and the run ends with it.
\<close>

theorem load_failure_no_report:
  assumes "length argv = 3"
    and "load E (argv ! 1) = Raises e \<or>
         (\<exists>v. load E (argv ! 1) = Loaded v \<and> load E (argv ! 2) = Raises e)"
  shows "report (main F argv E) = None \<and>
         (case e of
            FileNotFoundError msg \<Rightarrow>
              (if encodable F (''Error: '' @ msg)
               then console (main F argv E) = [''Error: '' @ msg] \<and> status (main F argv E) = Returned
               else console (main F argv E) = [] \<and>
                    status (main F argv E) = Uncaught UnicodeEncodeError)
          | JSONDecodeError msg \<Rightarrow>
              (if encodable F (''Error: Invalid JSON format in one file '' @ msg)
               then console (main F argv E) = [''Error: Invalid JSON format in one file '' @ msg] \<and>
                    status (main F argv E) = Returned
               else console (main F argv E) = [] \<and>
                    status (main F argv E) = Uncaught UnicodeEncodeError)
          | _ \<Rightarrow> console (main F argv E) = [] \<and> status (main F argv E) = Uncaught e)"
proof -
  have t: "try_body F E (argv ! 1) (argv ! 2) = ([], None, Inl e)"
    using assms(2) by (auto simp: try_body_def)
  show ?thesis using assms(1) t by (cases e) (simp_all add: main_def handler_def py_print_def)
qed

theorem load_failure_no_report_witness:
  "length argv0 = 3 \<and>
   load env_missing (argv0 ! 1) =
     Raises (FileNotFoundError
       (''[Errno 2] No such file or directory: '' @ [CHR 0x27] @ ''prices.json'' @ [CHR 0x27])) \<and>
   report (main fmt0 argv0 env_missing) = None \<and>
   console (main fmt0 argv0 env_missing) =
     [''Error: [Errno 2] No such file or directory: '' @ [CHR 0x27] @ ''prices.json'' @ [CHR 0x27]] \<and>
   status (main fmt0 argv0 env_missing) = Returned"
proof -
  have l: "length argv0 = 3" by (simp add: argv0_def)
  have r: "load env_missing (argv0 ! 1) =
     Raises (FileNotFoundError
       (''[Errno 2] No such file or directory: '' @ [CHR 0x27] @ ''prices.json'' @ [CHR 0x27]))"
    by (simp add: env_missing_def argv0_def)
  from load_failure_no_report [OF l disjI1 [OF r], of fmt0] l r
  show ?thesis by (simp add: encodable_def fmt0_def)
qed

text \<open>
  C8. Two runs on the same arguments, files and interpreter, whatever their clocks
  read, print the same lines, end the same way and, when they write the report,
  write the same first line \<^verbatim>\<open>Total Cost: $<total>\<close>; only the execution-time line
  depends on the clock.
\<close>

theorem total_line_independent_of_clock:
  assumes "load E1 = load E2" and "open_results E1 = open_results E2"
  shows "console (main F argv E1) = console (main F argv E2) \<and>
         status (main F argv E1) = status (main F argv E2) \<and>
         map_option (take 1) (report (main F argv E1)) =
           map_option (take 1) (report (main F argv E2))"
proof (cases "length argv = 3")
  case True
  define p where "p = argv ! 1"
  define s where "s = argv ! 2"
  obtain o1 w1 r1 where t1: "try_body F E1 p s = (o1, w1, r1)" by (cases "try_body F E1 p s")
  obtain o2 w2 r2 where t2: "try_body F E2 p s = (o2, w2, r2)" by (cases "try_body F E2 p s")
  from try_body_clock [OF assms, of F p s] t1 t2
  have e: "o1 = o2" "r1 = r2" "map_option (take 1) w1 = map_option (take 1) w2" by simp_all
  have m1: "main F argv E1 =
      (case (o1, w1, r1) of
         (out, written, Inr u) \<Rightarrow> \<lparr>console = out, report = written, status = Returned\<rparr>
       | (out, written, Inl (FileNotFoundError msg)) \<Rightarrow> handler F (''Error: '' @ msg) out written
       | (out, written, Inl (JSONDecodeError msg)) \<Rightarrow>
           handler F (''Error: Invalid JSON format in one file '' @ msg) out written
       | (out, written, Inl e) \<Rightarrow> \<lparr>console = out, report = written, status = Uncaught e\<rparr>)"
    unfolding main_def t1 [unfolded p_def s_def] using True by simp
  have m2: "main F argv E2 =
      (case (o2, w2, r2) of
         (out, written, Inr u) \<Rightarrow> \<lparr>console = out, report = written, status = Returned\<rparr>
       | (out, written, Inl (FileNotFoundError msg)) \<Rightarrow> handler F (''Error: '' @ msg) out written
       | (out, written, Inl (JSONDecodeError msg)) \<Rightarrow>
           handler F (''Error: Invalid JSON format in one file '' @ msg) out written
       | (out, written, Inl e) \<Rightarrow> \<lparr>console = out, report = written, status = Uncaught e\<rparr>)"
    unfolding main_def t2 [unfolded p_def s_def] using True by simp
  show ?thesis unfolding m1 m2 using e
    by (simp add: handler_def split: sum.split error.split)
next
  case False
  then show ?thesis by (simp add: main_def)
qed

theorem total_line_independent_of_clock_witness:
  "load (env0 (PList cat1) (PList sales1) (Fin 0) (Fin 1)) =
     load (env0 (PList cat1) (PList sales1) (Fin 5) (Fin 7)) \<and>
   open_results (env0 (PList cat1) (PList sales1) (Fin 0) (Fin 1)) =
     open_results (env0 (PList cat1) (PList sales1) (Fin 5) (Fin 7)) \<and>
   console (main fmt0 argv0 (env0 (PList cat1) (PList sales1) (Fin 0) (Fin 1))) =
     console (main fmt0 argv0 (env0 (PList cat1) (PList sales1) (Fin 5) (Fin 7))) \<and>
   status (main fmt0 argv0 (env0 (PList cat1) (PList sales1) (Fin 0) (Fin 1))) =
     status (main fmt0 argv0 (env0 (PList cat1) (PList sales1) (Fin 5) (Fin 7))) \<and>
   map_option (take 1) (report (main fmt0 argv0 (env0 (PList cat1) (PList sales1) (Fin 0) (Fin 1)))) =
     map_option (take 1) (report (main fmt0 argv0 (env0 (PList cat1) (PList sales1) (Fin 5) (Fin 7))))"
proof -
  have l: "load (env0 (PList cat1) (PList sales1) (Fin 0) (Fin 1)) =
     load (env0 (PList cat1) (PList sales1) (Fin 5) (Fin 7))" by (simp add: env0_def)
  have w: "open_results (env0 (PList cat1) (PList sales1) (Fin 0) (Fin 1)) =
     open_results (env0 (PList cat1) (PList sales1) (Fin 5) (Fin 7))" by (simp add: env0_def)
  from total_line_independent_of_clock [OF l w, of fmt0 argv0] l w show ?thesis by blast
qed

text \<open>
  C5. The claim wants a sale record without \<open>Quantity\<close> reported and skipped. The code
  does otherwise: for the catalogue of the example and the one sale record
  \<^verbatim>\<open>{"Product": "A"}\<close>, \<^verbatim>\<open>sale.get('Quantity')\<close> is \<open>None\<close>, the product
  \<^verbatim>\<open>product_price * None\<close> raises TypeError, which no clause of \<^verbatim>\<open>main\<close> catches:
  nothing is printed, no report is written and the run ends with the exception.
\<close>

theorem missing_quantity_raises:
  "compute_total_cost fmt0 (PList cat1) (PList sales_no_quantity) = ([], Inl TypeError) \<and>
   main fmt0 argv0 (env0 (PList cat1) (PList sales_no_quantity) (Fin 0) (Fin 0)) =
     \<lparr>console = [], report = None, status = Uncaught TypeError\<rparr>"
proof -
  have c: "compute_total_cost fmt0 (PList cat1) (PList sales_no_quantity) = ([], Inl TypeError)"
    by (simp add: compute_total_cost_def build_prices_cat1 price_map_cat1 sales_no_quantity_def
        py_mul_None)
  show ?thesis using c by (simp add: main_def try_body_def env0_def files_def argv0_def)
qed

end
